theory Spec2Isabelle
  imports Complex_Main "HOL-Library.Word"
begin

section \<open>Room automation controller (main.cpp): data model\<close>

text \<open>
  The sketch keeps its whole state in global variables and talks to its peripherals
  through library objects. The globals become the fields of the record \<open>estado\<close>; the
  calls on the peripherals are appended, in program order, to the field \<open>saida\<close>.
  The values the program reads from outside (the clock, the card reader, the ultrasonic
  sensor, the DHT11, the pending web request, and the bytes of memory that lie behind
  the identifiers of the table of users) are arguments of the functions.
\<close>

type_synonym byte = "8 word"
type_synonym ulong = "32 word"

text \<open>\<open>millis()\<close> is the number of milliseconds since boot in an \<open>unsigned long\<close>
  (32 bits on the ESP32): the clock, a natural number, modulo \<open>2 ^ 32\<close>.\<close>

definition millis :: "nat \<Rightarrow> ulong" where
  "millis t = of_nat t"

text \<open>A value of type \<open>float\<close> as read from the DHT11: not-a-number or a number.\<close>

datatype leitura = NaN | Valor rat

fun isnan :: "leitura \<Rightarrow> bool" where
  "isnan NaN = True"
| "isnan (Valor r) = False"

text \<open>The cast \<open>(int)temp\<close> truncates towards zero.\<close>

fun paraInt :: "leitura \<Rightarrow> int" where
  "paraInt NaN = 0"
| "paraInt (Valor r) = (if 0 \<le> r then \<lfloor>r\<rfloor> else \<lceil>r\<rceil>)"

datatype posicaoServo = Graus int | Micros int

datatype evento =
    LcdClear
  | LcdSetCursor nat nat
  | LcdPrint string
  | LcdPrintInt int
  | LcdPrintFloat leitura nat
  | SerialPrint string
  | SerialPrintln string
  | Delay nat
  | Tone nat nat nat
  | NoTone nat
  | DigitalWrite nat bool
  | ServoDetach
  | ServoAttach nat nat nat
  | ServoWriteMicroseconds int
  | PiccHaltA
  | PcdStopCrypto1
  | SendHeader string string
  | Send nat string string

subsection \<open>Constants\<close>

definition DISTANCIA_PRESENCA_CM :: int where "DISTANCIA_PRESENCA_CM = 20"
definition PINO_BUZZER :: nat where "PINO_BUZZER = 32"
definition PINO_VENTOINHA_AUTO :: nat where "PINO_VENTOINHA_AUTO = 2"
definition PINO_VENTOINHA_MANUAL :: nat where "PINO_VENTOINHA_MANUAL = 13"
definition PINO_LUZ :: nat where "PINO_LUZ = 14"
definition servo :: nat where "servo = 4"
definition posicaoAberta :: int where "posicaoAberta = 500"
definition posicaoFechada :: int where "posicaoFechada = 1495"
definition tempoMinimoPresenca :: ulong where "tempoMinimoPresenca = 5000"
definition intervaloLeituraTemp :: ulong where "intervaloLeituraTemp = 5000"

subsection \<open>Authorised users\<close>

record Usuario =
  uid :: "byte list"
  nome :: string

definition usuariosAutorizados :: "Usuario list" where
  "usuariosAutorizados =
     [\<lparr>uid = [207, 219, 197, 196], nome = ''Anne Beatriz''\<rparr>,
      \<lparr>uid = [30, 157, 226, 105], nome = ''Victor Augusto''\<rparr>]"

text \<open>The card the reader holds (\<open>rfid.uid\<close>): a buffer of ten bytes and the number
  of them that are the card's identifier (4, 7 or 10).\<close>

record Uid =
  uidByte :: "byte list"
  size_uid :: nat

text \<open>What \<open>lerRfid\<close> reads when a card is present: the card, and the memory around
  the table. The scan compares \<open>rfid.uid.size\<close> bytes starting at the field \<open>uid\<close>
  of an entry, so for a card of 7 or 10 bytes it reads past the four bytes of the field.
  On the ESP32 an entry takes 8 bytes (the identifier, then the pointer \<open>nome\<close>) and
  the entries follow one another; \<open>atras k\<close> is the byte at offset \<open>k\<close> from the
  start of the table wherever that byte is not one of an identifier (the bytes of the
  pointers, and whatever lies behind the last entry).\<close>

record cartaoLido = Uid +
  atras :: "nat \<Rightarrow> byte"

text \<open>The byte at offset \<open>k\<close> from the start of the table, and the \<open>n\<close> bytes
  that start at the field \<open>uid\<close> of entry \<open>i\<close>.\<close>

definition byteDaTabela :: "(nat \<Rightarrow> byte) \<Rightarrow> nat \<Rightarrow> byte" where
  "byteDaTabela m k =
     (if k div 8 < length usuariosAutorizados \<and> k mod 8 < 4
      then uid (usuariosAutorizados ! (k div 8)) ! (k mod 8) else m k)"

definition memoriaDoUid :: "(nat \<Rightarrow> byte) \<Rightarrow> nat \<Rightarrow> nat \<Rightarrow> byte list" where
  "memoriaDoUid m i n = map (byteDaTabela m) [8 * i ..< 8 * i + n]"

text \<open>\<open>memcmp(p, q, n)\<close> is used by the program only in the test \<open>== 0\<close>: the result is
  \<open>0\<close> when the first \<open>n\<close> bytes agree and non-zero otherwise. \<open>p\<close> and \<open>q\<close>
  are the bytes of memory from the two addresses on; every call of the program is given
  at least \<open>n\<close> of them on the side of the table and of \<open>ultimoUID\<close>.\<close>

definition memcmp :: "byte list \<Rightarrow> byte list \<Rightarrow> nat \<Rightarrow> int" where
  "memcmp p q n = (if take n p = take n q then 0 else 1)"

text \<open>\<open>memcpy(dst, src, 4)\<close> into the four-byte array \<open>ultimoUID\<close>.\<close>

definition memcpy4 :: "byte list \<Rightarrow> byte list" where
  "memcpy4 src = take 4 src"

subsection \<open>The state\<close>

record estado =
  mensagemSistema :: string
  tempacionamento :: int
  tempdesligamento :: int
  tempoInicioPresenca :: ulong
  portaAberta :: bool
  ultimoUID :: "byte list"
  ventilacaoState :: bool
  iluminacaoState :: bool
  ocupacao :: bool
  temperaturaAtual :: int
  ventilacaoAutomaticaState :: bool
  millisAnterior :: ulong
  luzDesligadaManualmente :: bool
  pinos :: "nat \<Rightarrow> bool"
  ServoPorta :: posicaoServo
  saida :: "evento list"

text \<open>The state when \<open>setup()\<close> has returned: the globals hold their initialisers, the
  three output pins are low and the servo was last sent to 90 degrees.\<close>

definition estado_inicial :: estado where
  "estado_inicial =
     \<lparr>mensagemSistema = [], tempacionamento = 25, tempdesligamento = 22,
      tempoInicioPresenca = 0, portaAberta = False, ultimoUID = [0, 0, 0, 0],
      ventilacaoState = False, iluminacaoState = False, ocupacao = False,
      temperaturaAtual = 0, ventilacaoAutomaticaState = False, millisAnterior = 0,
      luzDesligadaManualmente = False, pinos = (\<lambda>p. False), ServoPorta = Graus 90,
      saida = []\<rparr>"

definition emitir :: "evento list \<Rightarrow> estado \<Rightarrow> estado" where
  "emitir es s = s\<lparr>saida := saida s @ es\<rparr>"

definition digitalWrite :: "nat \<Rightarrow> bool \<Rightarrow> estado \<Rightarrow> estado" where
  "digitalWrite p v s = s\<lparr>pinos := (pinos s)(p := v), saida := saida s @ [DigitalWrite p v]\<rparr>"

definition writeMicroseconds :: "int \<Rightarrow> estado \<Rightarrow> estado" where
  "writeMicroseconds us s =
     s\<lparr>ServoPorta := Micros us, saida := saida s @ [ServoWriteMicroseconds us]\<rparr>"

section \<open>The functions of the sketch\<close>

subsection \<open>Web handlers\<close>

definition redirectToRoot :: "estado \<Rightarrow> estado" where
  "redirectToRoot s = emitir [SendHeader ''Location'' ''/'', Send 302 ''text/plain'' []] s"

definition msgLuzVazia :: string where
  "msgLuzVazia =
     [CHR 0xE2, CHR 0x9A, CHR 0xA0, CHR 0xEF, CHR 0xB8, CHR 0x8F] @
     '' N&atilde;o &eacute; poss&iacute;vel ligar a luz: sala est&aacute; vazia.''"

definition msgVentoinhaVazia :: string where
  "msgVentoinhaVazia =
     [CHR 0xE2, CHR 0x9A, CHR 0xA0, CHR 0xEF, CHR 0xB8, CHR 0x8F] @
     '' N&atilde;o &eacute; poss&iacute;vel ligar a ventoinha: sala est&aacute; vazia.''"

definition controleLuz :: "bool \<Rightarrow> estado \<Rightarrow> estado" where
  "controleLuz ligar s =
     redirectToRoot
       (if ligar then
          (if ocupacao s then
             (digitalWrite PINO_LUZ True s)
               \<lparr>iluminacaoState := True, luzDesligadaManualmente := False,
                mensagemSistema := ''Luz ligada com sucesso.''\<rparr>
           else s\<lparr>mensagemSistema := msgLuzVazia\<rparr>)
        else
          (let s1 = (digitalWrite PINO_LUZ False s)\<lparr>iluminacaoState := False\<rparr>;
               s2 = (if ocupacao s1 then s1\<lparr>luzDesligadaManualmente := True\<rparr> else s1)
           in s2\<lparr>mensagemSistema := ''Luz desligada.''\<rparr>))"

definition controleVentilacao :: "bool \<Rightarrow> estado \<Rightarrow> estado" where
  "controleVentilacao ligar s =
     redirectToRoot
       (if ligar then
          (if ocupacao s then
             (digitalWrite PINO_VENTOINHA_MANUAL True s)
               \<lparr>ventilacaoState := True,
                mensagemSistema := ''Ventilacao manual ligada com sucesso.''\<rparr>
           else s\<lparr>mensagemSistema := msgVentoinhaVazia\<rparr>)
        else
          (digitalWrite PINO_VENTOINHA_MANUAL False s)
            \<lparr>ventilacaoState := False, mensagemSistema := ''Ventilacao manual desligada.''\<rparr>)"

text \<open>\<open>String(n)\<close> of an \<open>int\<close>: its decimal digits, with a minus sign when negative.\<close>

function decimal :: "nat \<Rightarrow> string" where
  "decimal n =
     (if n < 10 then [char_of (48 + n)] else decimal (n div 10) @ [char_of (48 + n mod 10)])"
  by pat_completeness auto
termination
  by (relation "measure id") auto

definition String_int :: "int \<Rightarrow> string" where
  "String_int i = (if i < 0 then CHR ''-'' # decimal (nat (- i)) else decimal (nat i))"

definition cabecalhoHtml :: string where
  "cabecalhoHtml =
     ''<!DOCTYPE html><html><head><title>Controle de Sala</title><meta charset='UTF-8'><meta name='viewport' content='width=device-width, initial-scale=1'>'' @
     ''<meta http-equiv='refresh' content='10'>'' @
     ''<style>html{font-family: Helvetica, Arial, sans-serif; display: inline-block; margin: 0px auto; text-align: center;} body{background-color: #f4f4f4; max-width: 600px; margin: 0 auto;} h1{color: #333;} h3{color: #555; border-top: 2px solid #ccc; padding-top: 15px; margin-top: 20px;} .button{background-color:#4CAF50;border:none;color:white;padding:14px 30px;text-decoration:none;font-size:22px;margin:2px;cursor:pointer;border-radius:8px;} .button2{background-color:#f44336;} p{font-size: 18px;} .status{font-weight: bold;} .msg{color:blue; font-weight:bold; background-color: #e0e0ff; padding: 10px; border-radius: 5px;}</style></head><body><h1>Controle da Sala - ESP32</h1>''"

definition corpoHtml :: "estado \<Rightarrow> string" where
  "corpoHtml s =
     ''<p><b>Temperatura Atual:</b> '' @ String_int (temperaturaAtual s) @ ''&deg;C</p>'' @
     ''<p><b>Ocupa&ccedil;&atilde;o da Sala:</b> <span class='status'>'' @
       (if ocupacao s then ''OCUPADA'' else ''LIVRE'') @ ''</span></p>'' @
     ''<h3>Ilumina&ccedil;&atilde;o</h3>'' @
     ''<p>Estado: <span class='status'>'' @
       (if iluminacaoState s then ''LIGADA'' else ''DESLIGADA'') @ ''</span></p>'' @
     (if iluminacaoState s
      then ''<a href='/luz/off'><button class='button button2'>Desligar</button></a>''
      else ''<a href='/luz/on'><button class='button'>Ligar</button></a>'') @
     ''<h3>Ventila&ccedil;&atilde;o (Autom&aacute;tica)</h3>'' @
     ''<p>Aciona em: '' @ String_int (tempacionamento s) @ ''&deg;C</p>'' @
     ''<p>Estado: <span class='status'>'' @
       (if ventilacaoAutomaticaState s then ''LIGADA'' else ''DESLIGADA'') @ ''</span></p>'' @
     ''<h3>Ventila&ccedil;&atilde;o (Manual)</h3>'' @
     ''<p>Estado: <span class='status'>'' @
       (if ventilacaoState s then ''LIGADA'' else ''DESLIGADA'') @ ''</span></p>'' @
     (if ventilacaoState s
      then ''<a href='/ventilacao/off'><button class='button button2'>Desligar</button></a>''
      else ''<a href='/ventilacao/on'><button class='button'>Ligar</button></a>'') @
     ''</body></html>''"

text \<open>The page shows the pending system message once and clears it.\<close>

definition handleRoot :: "estado \<Rightarrow> estado" where
  "handleRoot s =
     (let html = cabecalhoHtml;
          (html, s1) =
            (if mensagemSistema s \<noteq> []
             then (html @ ''<p class='msg'>'' @ mensagemSistema s @ ''</p>'',
                   s\<lparr>mensagemSistema := []\<rparr>)
             else (html, s));
          html = html @ corpoHtml s1
      in emitir [Send 200 ''text/html'' html] s1)"

text \<open>\<open>server.handleClient()\<close> serves the pending request, if there is one, through the
  routes registered in \<open>setup()\<close>; any other path goes to the root page.\<close>

definition handleClient :: "string option \<Rightarrow> estado \<Rightarrow> estado" where
  "handleClient req s =
     (case req of
        None \<Rightarrow> s
      | Some uri \<Rightarrow>
          (if uri = ''/'' then handleRoot s
           else if uri = ''/luz/on'' then controleLuz True s
           else if uri = ''/luz/off'' then controleLuz False s
           else if uri = ''/ventilacao/on'' then controleVentilacao True s
           else if uri = ''/ventilacao/off'' then controleVentilacao False s
           else handleRoot s))"

subsection \<open>Switching off when the room is empty\<close>

definition verificarDesligamentoPorAusencia :: "estado \<Rightarrow> estado" where
  "verificarDesligamentoPorAusencia s =
     (if \<not> ocupacao s \<and> (iluminacaoState s \<or> ventilacaoState s) then
        (let s1 = (digitalWrite PINO_LUZ False s)\<lparr>iluminacaoState := False\<rparr>;
             s2 = (digitalWrite PINO_VENTOINHA_MANUAL False s1)\<lparr>ventilacaoState := False\<rparr>;
             s3 = s2\<lparr>mensagemSistema :=
                       ''Luz e ventoinha manual desligadas por aus'' @ [CHR 0xC3, CHR 0xAA] @
                       ''ncia.''\<rparr>
         in emitir
              [SerialPrintln (''AUTOMA'' @ [CHR 0xC3, CHR 0x87, CHR 0xC3, CHR 0x83] @
                 ''O: Luz e ventoinha manual desligadas, sala vazia.''),
               Delay 50] s3)
      else s)"

subsection \<open>Access control\<close>

text \<open>The scan of the table of authorised users: the loop runs over the index \<open>i\<close>
  and stops at the first entry for which \<open>rfid.uid.size\<close> bytes of memory, from the
  entry's field \<open>uid\<close> on, equal the card's.\<close>

fun procurarDesde :: "nat \<Rightarrow> cartaoLido \<Rightarrow> Usuario list \<Rightarrow> bool \<times> string" where
  "procurarDesde i c [] = (False, [])"
| "procurarDesde i c (u # us) =
     (if memcmp (uidByte c) (memoriaDoUid (atras c) i (size_uid c)) (size_uid c) = 0
      then (True, nome u)
      else procurarDesde (Suc i) c us)"

definition procurarUsuario :: "cartaoLido \<Rightarrow> Usuario list \<Rightarrow> bool \<times> string" where
  "procurarUsuario c us = procurarDesde 0 c us"

definition somBoasVindas :: "evento list" where
  "somBoasVindas =
     [ServoDetach, Delay 100, Tone PINO_BUZZER 659 150, Delay 200,
      Tone PINO_BUZZER 784 150, Delay 200, Tone PINO_BUZZER 880 150, Delay 200,
      NoTone PINO_BUZZER, ServoAttach servo 500 2500, Delay 250]"

text \<open>\<open>rd\<close> is \<open>None\<close> when there is no new card or its serial could not be read;
  \<open>agora\<close> is the value \<open>millis()\<close> returns at the end of the function.\<close>

definition lerRfid :: "cartaoLido option \<Rightarrow> ulong \<Rightarrow> estado \<Rightarrow> estado" where
  "lerRfid rd agora s =
     (case rd of
        None \<Rightarrow> s
      | Some c \<Rightarrow>
          (let (autorizado, nomeUsuario) = procurarUsuario c usuariosAutorizados;
               s1 = emitir [LcdClear, LcdSetCursor 0 0] s;
               s2 =
                 (if autorizado then
                    (let s3 = emitir
                                ([LcdPrint ''Bem-vindo:'', LcdSetCursor 0 1, LcdPrint nomeUsuario,
                                  SerialPrint ''>> Usuario: '', SerialPrintln nomeUsuario,
                                  Delay 1500] @ somBoasVindas @ [LcdClear, LcdSetCursor 0 0]) s1
                     in if \<not> portaAberta s3 then
                          (let s4 = emitir [Delay 100] (writeMicroseconds posicaoAberta s3);
                               s5 = s4\<lparr>portaAberta := True, ultimoUID := memcpy4 (uidByte c)\<rparr>
                           in emitir
                                [LcdPrint ''Porta: ABERTA'', SerialPrintln ''>> Porta ABERTA.'',
                                 ServoDetach, Delay 600, Tone PINO_BUZZER 1000 150, Delay 200,
                                 Tone PINO_BUZZER 1500 150, Delay 200, NoTone PINO_BUZZER,
                                 ServoAttach servo 500 2500, Delay 250] s5)
                        else if memcmp (uidByte c) (ultimoUID s3) 4 = 0 then
                          emitir
                            [LcdPrint ''Porta: FECHADA'', SerialPrintln ''>> Porta FECHADA.'']
                            ((writeMicroseconds posicaoFechada s3)\<lparr>portaAberta := False\<rparr>)
                        else
                          emitir
                            [LcdPrint ''Ja aberta por'', LcdSetCursor 0 1,
                             LcdPrint ''outro usuario'',
                             SerialPrintln ''>> Outro usuario tentou fechar a porta.'',
                             ServoDetach, Delay 100, Tone PINO_BUZZER 750 200, Delay 200,
                             Tone PINO_BUZZER 750 200, Delay 200, NoTone PINO_BUZZER,
                             ServoAttach servo 500 2500, Delay 250] s3)
                  else
                    emitir
                      [LcdPrint ''Acesso NEGADO'', LcdSetCursor 0 1, LcdPrint ''Cartao invalido'',
                       SerialPrintln ''>> Acesso Negado.'', Delay 100, ServoDetach, Delay 100,
                       Tone PINO_BUZZER 300 250, Delay 250, Tone PINO_BUZZER 300 250, Delay 250,
                       NoTone PINO_BUZZER, ServoAttach servo 500 2500, Delay 250] s1)
           in (emitir [Delay 1500, PiccHaltA, PcdStopCrypto1] s2)\<lparr>millisAnterior := agora\<rparr>))"

subsection \<open>Occupancy and automatic light\<close>

text \<open>\<open>distancia\<close> is the sensor's reading; \<open>m1\<close> is what \<open>millis()\<close> returns where the
  start of the presence is recorded, \<open>m2\<close> what it returns in the test of the minimum
  time. The comparison is between \<open>unsigned long\<close> values.\<close>

definition atualizarEstadoOcupacao :: "int \<Rightarrow> ulong \<Rightarrow> ulong \<Rightarrow> estado \<Rightarrow> estado" where
  "atualizarEstadoOcupacao distancia m1 m2 s =
     (let presencaAtual = (distancia > 0 \<and> distancia \<le> DISTANCIA_PRESENCA_CM);
          s1 = s\<lparr>ocupacao := presencaAtual\<rparr>
      in if presencaAtual then
           (let s2 = (if tempoInicioPresenca s1 = 0 then s1\<lparr>tempoInicioPresenca := m1\<rparr>
                      else s1)
            in if m2 - tempoInicioPresenca s2 \<ge> tempoMinimoPresenca \<and> \<not> iluminacaoState s2
                  \<and> \<not> luzDesligadaManualmente s2
               then controleLuz True
                      (emitir
                         [SerialPrintln (''AUTOMA'' @ [CHR 0xC3, CHR 0x87, CHR 0xC3, CHR 0x83] @
                            ''O: Presen'' @ [CHR 0xC3, CHR 0xA7] @
                            ''a detectada. Ligando a luz.'')] s2)
               else s2)
         else s1\<lparr>tempoInicioPresenca := 0, luzDesligadaManualmente := False\<rparr>)"

subsection \<open>Temperature reading and automatic fan\<close>

text \<open>\<open>m1\<close> is the clock in the test of the interval, \<open>m2\<close> the clock stored as the time
  of the reading.\<close>

definition atualizarDisplayTempUmi ::
    "ulong \<Rightarrow> ulong \<Rightarrow> leitura \<Rightarrow> leitura \<Rightarrow> estado \<Rightarrow> estado" where
  "atualizarDisplayTempUmi m1 m2 umidade temp s =
     (if m1 - millisAnterior s < intervaloLeituraTemp then s
      else
        (let s1 = s\<lparr>millisAnterior := m2\<rparr>
         in if isnan umidade \<or> isnan temp then
              emitir
                [SerialPrintln ''Falha ao ler dados do sensor DHT!'', LcdClear,
                 LcdSetCursor 0 0, LcdPrint ''ERRO SENSOR'', Delay 1000] s1
            else
              (let s2 = s1\<lparr>temperaturaAtual := paraInt temp\<rparr>
               in emitir
                    [LcdClear, LcdSetCursor 0 0, LcdPrint ''Umi: '', LcdPrintFloat umidade 1,
                     LcdPrint ''%'', LcdSetCursor 0 1, LcdPrint ''Temp: '',
                     LcdPrintInt (temperaturaAtual s2), LcdPrint [CHR 0xDF], LcdPrint ''C'']
                    s2)))"

definition controleAutomaticoVentoinha :: "estado \<Rightarrow> estado" where
  "controleAutomaticoVentoinha s =
     (if temperaturaAtual s \<ge> tempacionamento s \<and> \<not> ventilacaoAutomaticaState s then
        emitir [SerialPrintln (''Ventoinha AUTOM'' @ [CHR 0xC3, CHR 0x81] @ ''TICA LIGADA.'')]
          ((digitalWrite PINO_VENTOINHA_AUTO True s)
             \<lparr>ventilacaoAutomaticaState := True,
              mensagemSistema := ''Ventoinha LIGADA automaticamente por temperatura alta.''\<rparr>)
      else if temperaturaAtual s < tempdesligamento s \<and> ventilacaoAutomaticaState s then
        emitir
          [SerialPrintln (''Ventoinha AUTOM'' @ [CHR 0xC3, CHR 0x81] @ ''TICA DESLIGADA.'')]
          ((digitalWrite PINO_VENTOINHA_AUTO False s)
             \<lparr>ventilacaoAutomaticaState := False,
              mensagemSistema := ''Ventoinha DESLIGADA automaticamente.''\<rparr>)
      else s)"

section \<open>The control cycle\<close>

text \<open>What one pass through \<open>loop()\<close> reads from outside. The clock values are natural
  numbers of milliseconds since boot; the program sees them through \<open>millis\<close>.\<close>

record entradas =
  requisicao :: "string option"
  cartao :: "cartaoLido option"
  relogioRfid :: nat
  distancia :: int
  relogioPresenca1 :: nat
  relogioPresenca2 :: nat
  relogioTemp1 :: nat
  relogioTemp2 :: nat
  leituraUmidade :: leitura
  leituraTemp :: leitura

text \<open>Each call made by \<open>loop()\<close> is a step; a run is a list of steps.\<close>

datatype passo =
    Web "string option"
  | Rfid "cartaoLido option" nat
  | Ocup int nat nat
  | Temp nat nat leitura leitura
  | VentAuto
  | Ausencia

fun executar :: "passo \<Rightarrow> estado \<Rightarrow> estado" where
  "executar (Web req) s = handleClient req s"
| "executar (Rfid rd t) s = lerRfid rd (millis t) s"
| "executar (Ocup d t1 t2) s = atualizarEstadoOcupacao d (millis t1) (millis t2) s"
| "executar (Temp t1 t2 u tp) s = atualizarDisplayTempUmi (millis t1) (millis t2) u tp s"
| "executar VentAuto s = controleAutomaticoVentoinha s"
| "executar Ausencia s = verificarDesligamentoPorAusencia s"

fun rodar :: "estado \<Rightarrow> passo list \<Rightarrow> estado" where
  "rodar s [] = s"
| "rodar s (p # ps) = rodar (executar p s) ps"

definition passosDoLoop :: "entradas \<Rightarrow> passo list" where
  "passosDoLoop e =
     [Web (requisicao e), Rfid (cartao e) (relogioRfid e),
      Ocup (distancia e) (relogioPresenca1 e) (relogioPresenca2 e),
      Temp (relogioTemp1 e) (relogioTemp2 e) (leituraUmidade e) (leituraTemp e),
      VentAuto, Ausencia]"

definition loop :: "entradas \<Rightarrow> estado \<Rightarrow> estado" where
  "loop e s =
     verificarDesligamentoPorAusencia
       (controleAutomaticoVentoinha
          (atualizarDisplayTempUmi (millis (relogioTemp1 e)) (millis (relogioTemp2 e))
             (leituraUmidade e) (leituraTemp e)
             (atualizarEstadoOcupacao (distancia e) (millis (relogioPresenca1 e))
                (millis (relogioPresenca2 e))
                (lerRfid (cartao e) (millis (relogioRfid e))
                   (handleClient (requisicao e) s)))))"

text \<open>The states the sketch can be in between two calls of \<open>loop()\<close>'s body are those of
  the runs that repeat the six steps of a cycle; every property below that is stated for
  all runs of steps holds for them in particular.\<close>

fun rodarLoop :: "estado \<Rightarrow> entradas list \<Rightarrow> estado" where
  "rodarLoop s [] = s"
| "rodarLoop s (e # es) = rodarLoop (loop e s) es"

section \<open>The vocabulary of the properties\<close>

text \<open>The two conditions \<open>atualizarEstadoOcupacao\<close> tests, under the names the
  specification gives them: the instantaneous presence (\<open>presencaAtual\<close>) and the
  confirmed presence, measured from the start of the presence that the function has
  stored or stores in this very call (\<open>inicioEfetivo\<close>).\<close>

definition presencaAtual :: "int \<Rightarrow> bool" where
  "presencaAtual d = (d > 0 \<and> d \<le> DISTANCIA_PRESENCA_CM)"

definition inicioEfetivo :: "ulong \<Rightarrow> estado \<Rightarrow> ulong" where
  "inicioEfetivo m1 s = (if tempoInicioPresenca s = 0 then m1 else tempoInicioPresenca s)"

definition presencaConfirmada :: "int \<Rightarrow> ulong \<Rightarrow> ulong \<Rightarrow> estado \<Rightarrow> bool" where
  "presencaConfirmada d m1 m2 s =
     (presencaAtual d \<and> tempoMinimoPresenca \<le> m2 - inicioEfetivo m1 s)"

text \<open>The temperature lies in the hysteresis band.\<close>

definition naBanda :: "estado \<Rightarrow> bool" where
  "naBanda s =
     (tempdesligamento s \<le> temperaturaAtual s \<and> temperaturaAtual s < tempacionamento s)"

text \<open>Along a run, every evaluation of the automatic fan finds the temperature in the
  band.\<close>

fun bandaNasAvaliacoes :: "estado \<Rightarrow> passo list \<Rightarrow> bool" where
  "bandaNasAvaliacoes s [] = True"
| "bandaNasAvaliacoes s (p # ps) =
     ((if p = VentAuto then naBanda s else True) \<and> bandaNasAvaliacoes (executar p s) ps)"

text \<open>The card is found by the scan of the table.\<close>

definition autorizado :: "cartaoLido \<Rightarrow> bool" where
  "autorizado c = fst (procurarUsuario c usuariosAutorizados)"




text \<open>The clock readings of the occupancy steps of a run, in order; and a step is
  \<open>presenteNoPasso\<close> unless it is an occupancy sample that is not a presence.\<close>

fun temposDoPasso :: "passo \<Rightarrow> nat list" where
  "temposDoPasso (Ocup d t1 t2) = [t1, t2]"
| "temposDoPasso (Web req) = []"
| "temposDoPasso (Rfid rd t) = []"
| "temposDoPasso (Temp t1 t2 u tp) = []"
| "temposDoPasso VentAuto = []"
| "temposDoPasso Ausencia = []"

definition temposOcup :: "passo list \<Rightarrow> nat list" where
  "temposOcup ps = concat (map temposDoPasso ps)"

fun presenteNoPasso :: "passo \<Rightarrow> bool" where
  "presenteNoPasso (Ocup d t1 t2) = presencaAtual d"
| "presenteNoPasso (Web req) = True"
| "presenteNoPasso (Rfid rd t) = True"
| "presenteNoPasso (Temp t1 t2 u tp) = True"
| "presenteNoPasso VentAuto = True"
| "presenteNoPasso Ausencia = True"

text \<open>The stored start of the presence is the first clock reading of an occupancy step
  of the run, and every occupancy sample from that step on is a presence.\<close>

definition emPermanencia :: "passo list \<Rightarrow> estado \<Rightarrow> bool" where
  "emPermanencia ps s =
     (\<exists>zs ys d0 a0 b0. ps = zs @ Ocup d0 a0 b0 # ys
        \<and> list_all presenteNoPasso (Ocup d0 a0 b0 # ys)
        \<and> tempoInicioPresenca s = millis a0)"

subsection \<open>States and cards used as concrete inputs\<close>

definition sQuente :: estado where
  "sQuente = estado_inicial\<lparr>temperaturaAtual := 25\<rparr>"

definition sMorno :: estado where
  "sMorno = estado_inicial\<lparr>temperaturaAtual := 23, ventilacaoAutomaticaState := True,
     pinos := (\<lambda>p. p = PINO_VENTOINHA_AUTO)\<rparr>"

definition sFrio :: estado where
  "sFrio = estado_inicial\<lparr>temperaturaAtual := 21, ventilacaoAutomaticaState := True,
     pinos := (\<lambda>p. p = PINO_VENTOINHA_AUTO)\<rparr>"

definition sLuzAcesa :: estado where
  "sLuzAcesa = estado_inicial\<lparr>iluminacaoState := True, ventilacaoAutomaticaState := True,
     pinos := (\<lambda>p. p = PINO_LUZ \<or> p = PINO_VENTOINHA_AUTO)\<rparr>"



definition estranho :: cartaoLido where
  "estranho = \<lparr>uidByte = [1, 2, 3, 4, 0, 0, 0, 0, 0, 0], size_uid = 4, atras = (\<lambda>k. 0)\<rparr>"

text \<open>A card of seven bytes: the four bytes of the second entry of the table, then the
  three bytes that lie behind them in the memory \<open>m\<close> (offsets 12 to 14 from the start
  of the table).\<close>

definition cartaoSeteBytes :: "(nat \<Rightarrow> byte) \<Rightarrow> cartaoLido" where
  "cartaoSeteBytes m =
     \<lparr>uidByte = [30, 157, 226, 105, m 12, m 13, m 14, 0, 0, 0], size_uid = 7, atras = m\<rparr>"

definition sPresente :: estado where
  "sPresente = estado_inicial\<lparr>ocupacao := True, tempoInicioPresenca := 1000,
     mensagemSistema := ''Ventoinha DESLIGADA automaticamente.''\<rparr>"

definition sBloqueado :: estado where
  "sBloqueado = sPresente\<lparr>luzDesligadaManualmente := True\<rparr>"

definition passosManual :: "passo list" where
  "passosManual = [Ocup 15 1000 1000, Web (Some ''/luz/on''), Web (Some ''/luz/off'')]"

definition entradasSalaVazia :: entradas where
  "entradasSalaVazia =
     \<lparr>requisicao = None, cartao = None, relogioRfid = 2000, distancia = 0,
      relogioPresenca1 = 2000, relogioPresenca2 = 2000, relogioTemp1 = 2000,
      relogioTemp2 = 2000, leituraUmidade = NaN, leituraTemp = NaN\<rparr>"


definition passosPermanencia :: "passo list" where
  "passosPermanencia = [Ocup 15 1000 1000, VentAuto, Ausencia, Ocup 15 3000 3000]"

subsection \<open>What the program shows and says\<close>



text \<open>The line \<open>atualizarEstadoOcupacao\<close> prints before it switches the light on.\<close>

definition avisoLuzAutomatica :: "evento list" where
  "avisoLuzAutomatica =
     [SerialPrintln (''AUTOMA'' @ [CHR 0xC3, CHR 0x87, CHR 0xC3, CHR 0x83] @ ''O: Presen'' @
        [CHR 0xC3, CHR 0xA7] @ ''a detectada. Ligando a luz.'')]"

text \<open>Everything \<open>lerRfid\<close> sends to its peripherals for a card that is not in the
  table.\<close>

definition avisoNegado :: "evento list" where
  "avisoNegado =
     [LcdClear, LcdSetCursor 0 0,
      LcdPrint ''Acesso NEGADO'', LcdSetCursor 0 1, LcdPrint ''Cartao invalido'',
      SerialPrintln ''>> Acesso Negado.'', Delay 100, ServoDetach, Delay 100,
      Tone PINO_BUZZER 300 250, Delay 250, Tone PINO_BUZZER 300 250, Delay 250,
      NoTone PINO_BUZZER, ServoAttach servo 500 2500, Delay 250,
      Delay 1500, PiccHaltA, PcdStopCrypto1]"

text \<open>The message \<open>verificarDesligamentoPorAusencia\<close> leaves for the web page.\<close>

definition msgAusencia :: string where
  "msgAusencia =
     ''Luz e ventoinha manual desligadas por aus'' @ [CHR 0xC3, CHR 0xAA] @ ''ncia.''"

section \<open>Properties\<close>

lemmas constantes =
  DISTANCIA_PRESENCA_CM_def PINO_BUZZER_def PINO_VENTOINHA_AUTO_def
  PINO_VENTOINHA_MANUAL_def PINO_LUZ_def servo_def posicaoAberta_def posicaoFechada_def
  tempoMinimoPresenca_def intervaloLeituraTemp_def

lemmas funcoes =
  emitir_def digitalWrite_def writeMicroseconds_def redirectToRoot_def controleLuz_def
  controleVentilacao_def handleRoot_def handleClient_def verificarDesligamentoPorAusencia_def
  lerRfid_def atualizarEstadoOcupacao_def atualizarDisplayTempUmi_def
  controleAutomaticoVentoinha_def

subsection \<open>Cycles are runs of steps\<close>

lemma rodar_append: "rodar s (ps @ qs) = rodar (rodar s ps) qs"
  by (induction ps arbitrary: s) simp_all

lemma loop_rodar: "loop e s = rodar s (passosDoLoop e)"
  by (simp add: loop_def passosDoLoop_def)

lemma rodarLoop_rodar: "rodarLoop s es = rodar s (concat (map passosDoLoop es))"
  by (induction es arbitrary: s) (simp_all add: rodar_append loop_rodar)

subsection \<open>Automatic fan: hysteresis\<close>

lemma executar_ventAuto_frame:
  "p \<noteq> VentAuto \<Longrightarrow>
   ventilacaoAutomaticaState (executar p s) = ventilacaoAutomaticaState s"
  by (cases p) (simp_all add: funcoes Let_def split: option.splits prod.splits)

lemma banda_estavel: "naBanda s \<Longrightarrow> controleAutomaticoVentoinha s = s"
  by (simp add: naBanda_def controleAutomaticoVentoinha_def)

lemma banda_rodar:
  "bandaNasAvaliacoes s ps \<Longrightarrow>
   ventilacaoAutomaticaState (rodar s ps) = ventilacaoAutomaticaState s"
proof (induction ps arbitrary: s)
  case Nil
  show ?case by simp
next
  case (Cons p ps)
  from Cons.prems have rest: "bandaNasAvaliacoes (executar p s) ps" by simp
  have "ventilacaoAutomaticaState (executar p s) = ventilacaoAutomaticaState s"
  proof (cases "p = VentAuto")
    case True
    with Cons.prems have "naBanda s" by simp
    with True show ?thesis by (simp add: banda_estavel)
  next
    case False
    then show ?thesis by (rule executar_ventAuto_frame)
  qed
  with Cons.IH [OF rest] show ?case by simp
qed

text \<open>
  C5. The automatic fan goes from off to on exactly when the temperature is at or above
  the switch-on threshold and the fan is off (the pin is then high); it goes from on to
  off exactly when the temperature is below the switch-off threshold and the fan is on
  (the pin is then low); with the temperature in the band between the two thresholds the
  function changes nothing, and along any run in which every evaluation finds the
  temperature in the band the state of the fan stays what it was.
\<close>

theorem ventoinha_histerese:
  "((ventilacaoAutomaticaState (controleAutomaticoVentoinha s) \<and> \<not> ventilacaoAutomaticaState s)
     = (temperaturaAtual s \<ge> tempacionamento s \<and> \<not> ventilacaoAutomaticaState s))
   \<and> ((\<not> ventilacaoAutomaticaState (controleAutomaticoVentoinha s) \<and> ventilacaoAutomaticaState s)
     = (temperaturaAtual s < tempdesligamento s \<and> ventilacaoAutomaticaState s))
   \<and> (temperaturaAtual s \<ge> tempacionamento s \<and> \<not> ventilacaoAutomaticaState s
        \<longrightarrow> pinos (controleAutomaticoVentoinha s) PINO_VENTOINHA_AUTO)
   \<and> (temperaturaAtual s < tempdesligamento s \<and> ventilacaoAutomaticaState s
        \<longrightarrow> \<not> pinos (controleAutomaticoVentoinha s) PINO_VENTOINHA_AUTO)
   \<and> (naBanda s \<longrightarrow> controleAutomaticoVentoinha s = s)
   \<and> (bandaNasAvaliacoes s ps \<longrightarrow>
        ventilacaoAutomaticaState (rodar s ps) = ventilacaoAutomaticaState s)"
proof -
  have liga:
    "(ventilacaoAutomaticaState (controleAutomaticoVentoinha s) \<and> \<not> ventilacaoAutomaticaState s)
     = (temperaturaAtual s \<ge> tempacionamento s \<and> \<not> ventilacaoAutomaticaState s)"
    by (simp add: controleAutomaticoVentoinha_def emitir_def digitalWrite_def)
  have desliga:
    "(\<not> ventilacaoAutomaticaState (controleAutomaticoVentoinha s) \<and> ventilacaoAutomaticaState s)
     = (temperaturaAtual s < tempdesligamento s \<and> ventilacaoAutomaticaState s)"
    by (auto simp add: controleAutomaticoVentoinha_def emitir_def digitalWrite_def)
  have pino1: "temperaturaAtual s \<ge> tempacionamento s \<and> \<not> ventilacaoAutomaticaState s
        \<longrightarrow> pinos (controleAutomaticoVentoinha s) PINO_VENTOINHA_AUTO"
    by (simp add: controleAutomaticoVentoinha_def emitir_def digitalWrite_def)
  have pino0: "temperaturaAtual s < tempdesligamento s \<and> ventilacaoAutomaticaState s
        \<longrightarrow> \<not> pinos (controleAutomaticoVentoinha s) PINO_VENTOINHA_AUTO"
    by (simp add: controleAutomaticoVentoinha_def emitir_def digitalWrite_def)
  from liga desliga pino1 pino0 banda_estavel [of s] banda_rodar [of s ps]
  show ?thesis by blast
qed

theorem ventoinha_histerese_witness:
  "(temperaturaAtual sQuente \<ge> tempacionamento sQuente \<and> \<not> ventilacaoAutomaticaState sQuente)
   \<and> pinos (controleAutomaticoVentoinha sQuente) PINO_VENTOINHA_AUTO
   \<and> (temperaturaAtual sFrio < tempdesligamento sFrio \<and> ventilacaoAutomaticaState sFrio)
   \<and> \<not> pinos (controleAutomaticoVentoinha sFrio) PINO_VENTOINHA_AUTO
   \<and> naBanda sMorno \<and> controleAutomaticoVentoinha sMorno = sMorno
   \<and> bandaNasAvaliacoes sMorno [VentAuto, Temp 6000 6000 (Valor 40) (Valor (247 / 10)), VentAuto]
   \<and> ventilacaoAutomaticaState
        (rodar sMorno [VentAuto, Temp 6000 6000 (Valor 40) (Valor (247 / 10)), VentAuto])"
  using ventoinha_histerese [of sQuente "[]"] ventoinha_histerese [of sFrio "[]"]
    ventoinha_histerese
      [of sMorno "[VentAuto, Temp 6000 6000 (Valor 40) (Valor (247 / 10)), VentAuto]"]
  by (simp add: sQuente_def sFrio_def sMorno_def estado_inicial_def naBanda_def funcoes
      constantes millis_def)

subsection \<open>The scan of the table\<close>

text \<open>What the scan reads for a card of four bytes is the stored identifier, so such a
  card is found exactly when its four bytes are one of the identifiers of the table.\<close>

lemma memoriaDoUid_anne: "memoriaDoUid m 0 4 = [207, 219, 197, 196]"
  by (simp add: memoriaDoUid_def byteDaTabela_def usuariosAutorizados_def upt_rec)

lemma memoriaDoUid_victor: "memoriaDoUid m (Suc 0) 4 = [30, 157, 226, 105]"
  by (simp add: memoriaDoUid_def byteDaTabela_def usuariosAutorizados_def upt_rec)

lemma memoriaDoUid_victor_sete:
  "memoriaDoUid m (Suc 0) 7 = [30, 157, 226, 105, m 12, m 13, m 14]"
  by (simp add: memoriaDoUid_def byteDaTabela_def usuariosAutorizados_def upt_rec)

lemma memoriaDoUid_anne_sete:
  "memoriaDoUid m 0 7 = [207, 219, 197, 196, m 4, m 5, m 6]"
  by (simp add: memoriaDoUid_def byteDaTabela_def usuariosAutorizados_def upt_rec,
      simp add: eval_nat_numeral)

lemma autorizado_quatro_bytes:
  "size_uid c = 4 \<Longrightarrow>
   autorizado c = (take 4 (uidByte c) \<in> set (map uid usuariosAutorizados))"
  by (auto simp add: autorizado_def procurarUsuario_def memcmp_def memoriaDoUid_anne
      memoriaDoUid_victor usuariosAutorizados_def)

subsection \<open>Manual commands\<close>

text \<open>
  C6. With the room not occupied, the manual command to switch the light on changes
  nothing but the system message, which becomes the notice that the room is empty, and
  the redirect it answers with; the same holds for the manual fan. The manual command to
  switch off always leaves the light (or the manual fan) off, state and pin, whatever the
  state it is given in.
\<close>

theorem manual_sala_vazia:
  "\<not> ocupacao s \<Longrightarrow>
     controleLuz True s =
       s\<lparr>mensagemSistema := msgLuzVazia,
         saida := saida s @ [SendHeader ''Location'' ''/'', Send 302 ''text/plain'' []]\<rparr>
   \<and> controleVentilacao True s =
       s\<lparr>mensagemSistema := msgVentoinhaVazia,
         saida := saida s @ [SendHeader ''Location'' ''/'', Send 302 ''text/plain'' []]\<rparr>
   \<and> \<not> iluminacaoState (controleLuz False s0) \<and> \<not> pinos (controleLuz False s0) PINO_LUZ
   \<and> mensagemSistema (controleLuz False s0) = ''Luz desligada.''
   \<and> \<not> ventilacaoState (controleVentilacao False s0)
   \<and> \<not> pinos (controleVentilacao False s0) PINO_VENTOINHA_MANUAL
   \<and> mensagemSistema (controleVentilacao False s0) = ''Ventilacao manual desligada.''"
  by (simp add: controleLuz_def controleVentilacao_def redirectToRoot_def emitir_def
      digitalWrite_def Let_def)

theorem manual_sala_vazia_witness:
  "\<not> ocupacao estado_inicial
   \<and> iluminacaoState (controleLuz True estado_inicial) = iluminacaoState estado_inicial
   \<and> pinos (controleLuz True estado_inicial) = pinos estado_inicial
   \<and> mensagemSistema (controleLuz True estado_inicial) = msgLuzVazia
   \<and> ventilacaoState (controleVentilacao True estado_inicial) = ventilacaoState estado_inicial
   \<and> mensagemSistema (controleVentilacao True estado_inicial) = msgVentoinhaVazia"
  using manual_sala_vazia [of estado_inicial estado_inicial]
  by (simp add: estado_inicial_def)

subsection \<open>Cards that are not authorised\<close>

text \<open>For a card that the scan does not find, \<open>lerRfid\<close> shows "Acesso NEGADO" with its
  two low beeps and changes nothing in the state but the time of the last temperature
  reading; a card of four bytes that is not in the table is such a card.\<close>

lemma lerRfid_negado:
  "\<not> autorizado c \<Longrightarrow>
     lerRfid (Some c) agora s = s\<lparr>millisAnterior := agora, saida := saida s @ avisoNegado\<rparr>"
  by (cases "procurarUsuario c usuariosAutorizados")
    (simp add: autorizado_def lerRfid_def emitir_def avisoNegado_def Let_def)

lemma cartao_de_quatro_bytes_negado:
  assumes "size_uid c = 4" and "take 4 (uidByte c) \<notin> set (map uid usuariosAutorizados)"
  shows "lerRfid (Some c) agora s =
           s\<lparr>millisAnterior := agora, saida := saida s @ avisoNegado\<rparr>"
proof -
  from assms have "\<not> autorizado c" by (simp add: autorizado_quatro_bytes)
  then show ?thesis by (rule lerRfid_negado)
qed

lemma cartao_de_quatro_bytes_negado_exemplo:
  "size_uid estranho = 4 \<and> take 4 (uidByte estranho) \<notin> set (map uid usuariosAutorizados)
   \<and> lerRfid (Some estranho) 9000 estado_inicial =
       estado_inicial\<lparr>millisAnterior := 9000, saida := avisoNegado\<rparr>"
proof -
  have h1: "size_uid estranho = 4"
    and h2: "take 4 (uidByte estranho) \<notin> set (map uid usuariosAutorizados)"
    by (simp_all add: estranho_def usuariosAutorizados_def)
  from cartao_de_quatro_bytes_negado [OF h1 h2, of 9000 estado_inicial] h1 h2
  show ?thesis by (simp add: estado_inicial_def)
qed

text \<open>
  C7. A card that is not in the table is to be refused, with no change of the door. The
  scan compares \<open>rfid.uid.size\<close> bytes where the table stores four (the copy and the
  comparison of the holder, further down in the same function, use the length 4), so
  for a card of seven bytes it also compares the three bytes of memory behind the
  stored identifier. Whatever those bytes are, the card made of the second entry's four
  bytes followed by them is none of the identifiers of the table, and yet the scan finds
  it: from the initial state it is greeted as "Victor Augusto", the door opens, the
  servo goes to the open position and the card's first four bytes become the holder.
\<close>

theorem cartao_sete_bytes_admitido:
  "take (size_uid (cartaoSeteBytes m)) (uidByte (cartaoSeteBytes m))
       \<notin> set (map uid usuariosAutorizados)
   \<and> procurarUsuario (cartaoSeteBytes m) usuariosAutorizados = (True, ''Victor Augusto'')
   \<and> portaAberta (lerRfid (Some (cartaoSeteBytes m)) agora estado_inicial)
   \<and> ultimoUID (lerRfid (Some (cartaoSeteBytes m)) agora estado_inicial)
       = [30, 157, 226, 105]
   \<and> ServoPorta (lerRfid (Some (cartaoSeteBytes m)) agora estado_inicial)
       = Micros posicaoAberta
   \<and> LcdPrint ''Porta: ABERTA''
       \<in> set (saida (lerRfid (Some (cartaoSeteBytes m)) agora estado_inicial))
   \<and> LcdPrint ''Acesso NEGADO''
       \<notin> set (saida (lerRfid (Some (cartaoSeteBytes m)) agora estado_inicial))"
proof -
  have fora: "take (size_uid (cartaoSeteBytes m)) (uidByte (cartaoSeteBytes m))
       \<notin> set (map uid usuariosAutorizados)"
    by (simp add: cartaoSeteBytes_def usuariosAutorizados_def)
  have achado:
    "procurarUsuario (cartaoSeteBytes m) usuariosAutorizados = (True, ''Victor Augusto'')"
    by (simp add: procurarUsuario_def cartaoSeteBytes_def usuariosAutorizados_def memcmp_def
        memoriaDoUid_anne_sete memoriaDoUid_victor_sete)
  have abre: "portaAberta (lerRfid (Some (cartaoSeteBytes m)) agora estado_inicial)
     \<and> ultimoUID (lerRfid (Some (cartaoSeteBytes m)) agora estado_inicial)
         = [30, 157, 226, 105]
     \<and> ServoPorta (lerRfid (Some (cartaoSeteBytes m)) agora estado_inicial)
         = Micros posicaoAberta
     \<and> LcdPrint ''Porta: ABERTA''
         \<in> set (saida (lerRfid (Some (cartaoSeteBytes m)) agora estado_inicial))
     \<and> LcdPrint ''Acesso NEGADO''
         \<notin> set (saida (lerRfid (Some (cartaoSeteBytes m)) agora estado_inicial))"
    by (simp add: lerRfid_def achado Let_def emitir_def writeMicroseconds_def
        estado_inicial_def memcpy4_def somBoasVindas_def)
      (simp add: cartaoSeteBytes_def)
  from fora achado abre show ?thesis by (intro conjI) simp_all
qed

subsection \<open>Switching off an empty room\<close>

text \<open>
  C8. When the room is not occupied and the light or the manual fan is on,
  \<open>verificarDesligamentoPorAusencia\<close> leaves both off (state and pin) and leaves its
  notice in the system message; the manual-off flag of the light and the automatic fan
  (state and pin) are what they were.
\<close>

theorem desligamento_por_ausencia:
  "\<not> ocupacao s \<Longrightarrow> iluminacaoState s \<or> ventilacaoState s \<Longrightarrow>
     \<not> iluminacaoState (verificarDesligamentoPorAusencia s)
   \<and> \<not> pinos (verificarDesligamentoPorAusencia s) PINO_LUZ
   \<and> \<not> ventilacaoState (verificarDesligamentoPorAusencia s)
   \<and> \<not> pinos (verificarDesligamentoPorAusencia s) PINO_VENTOINHA_MANUAL
   \<and> mensagemSistema (verificarDesligamentoPorAusencia s) = msgAusencia
   \<and> luzDesligadaManualmente (verificarDesligamentoPorAusencia s) = luzDesligadaManualmente s
   \<and> ventilacaoAutomaticaState (verificarDesligamentoPorAusencia s)
       = ventilacaoAutomaticaState s
   \<and> pinos (verificarDesligamentoPorAusencia s) PINO_VENTOINHA_AUTO
       = pinos s PINO_VENTOINHA_AUTO"
  by (simp add: verificarDesligamentoPorAusencia_def emitir_def digitalWrite_def Let_def
      msgAusencia_def constantes)

theorem desligamento_por_ausencia_witness:
  "\<not> ocupacao sLuzAcesa \<and> (iluminacaoState sLuzAcesa \<or> ventilacaoState sLuzAcesa)
   \<and> \<not> iluminacaoState (verificarDesligamentoPorAusencia sLuzAcesa)
   \<and> ventilacaoAutomaticaState (verificarDesligamentoPorAusencia sLuzAcesa)
   \<and> pinos (verificarDesligamentoPorAusencia sLuzAcesa) PINO_VENTOINHA_AUTO"
  using desligamento_por_ausencia [of sLuzAcesa]
  by (simp add: sLuzAcesa_def estado_inicial_def constantes)

subsection \<open>The card reader and the timers\<close>

text \<open>
  C9, as stated: a card leaves the timer of the temperature reading as it was. It does
  not: a card presented at clock 7000 to the initial state moves \<open>millisAnterior\<close>
  from 0 to 7000.
\<close>

theorem rfid_temporizador_counterexample:
  "millisAnterior (lerRfid (Some estranho) (millis 7000) estado_inicial)
     \<noteq> millisAnterior estado_inicial"
  by (simp add: lerRfid_def emitir_def writeMicroseconds_def estado_inicial_def millis_def
      Let_def split: prod.splits)

text \<open>
  C9, amended. For every card that is read, authorised or not, \<open>lerRfid\<close> sets the
  timer of the temperature reading (\<open>millisAnterior\<close>) to the clock it reads at its
  end; \<open>lerRfid\<close> never changes the start of the presence
  (\<open>tempoInicioPresenca\<close>), with a card or without; and when no card is read
  \<open>lerRfid\<close> returns the state as it was.
\<close>

theorem rfid_temporizador:
  "millisAnterior (lerRfid (Some c) agora s) = agora
   \<and> tempoInicioPresenca (lerRfid rd agora s) = tempoInicioPresenca s
   \<and> lerRfid None agora s = s"
  by (simp add: lerRfid_def emitir_def writeMicroseconds_def Let_def
      split: prod.splits option.splits)

subsection \<open>Automatic light\<close>

text \<open>When the presence is confirmed, the light is off and the manual-off flag is clear,
  the function is a call of \<open>controleLuz True\<close>; otherwise it leaves the light, the
  pins, the output and the system message alone.\<close>

lemma ocupacao_luz:
  "(presencaConfirmada d m1 m2 s \<and> \<not> iluminacaoState s \<and> \<not> luzDesligadaManualmente s
      \<longrightarrow> atualizarEstadoOcupacao d m1 m2 s =
            controleLuz True
              (emitir avisoLuzAutomatica
                 (s\<lparr>ocupacao := True, tempoInicioPresenca := inicioEfetivo m1 s\<rparr>)))
   \<and> (\<not> (presencaConfirmada d m1 m2 s \<and> \<not> iluminacaoState s \<and> \<not> luzDesligadaManualmente s)
      \<longrightarrow> iluminacaoState (atualizarEstadoOcupacao d m1 m2 s) = iluminacaoState s
        \<and> pinos (atualizarEstadoOcupacao d m1 m2 s) = pinos s
        \<and> saida (atualizarEstadoOcupacao d m1 m2 s) = saida s
        \<and> mensagemSistema (atualizarEstadoOcupacao d m1 m2 s) = mensagemSistema s)"
  by (auto simp add: atualizarEstadoOcupacao_def presencaConfirmada_def presencaAtual_def
      inicioEfetivo_def avisoLuzAutomatica_def Let_def)

text \<open>
  C3. \<open>atualizarEstadoOcupacao\<close> takes the light from off to on exactly when the
  presence is confirmed, the light is off and the manual-off flag is clear, and the pin
  of the light is then high; in every other case the light and the pins are what they
  were, in particular whenever the manual-off flag is set.
\<close>

theorem luz_automatica:
  "((iluminacaoState (atualizarEstadoOcupacao d m1 m2 s) \<and> \<not> iluminacaoState s)
      = (presencaConfirmada d m1 m2 s \<and> \<not> iluminacaoState s \<and> \<not> luzDesligadaManualmente s))
   \<and> (presencaConfirmada d m1 m2 s \<and> \<not> iluminacaoState s \<and> \<not> luzDesligadaManualmente s
        \<longrightarrow> pinos (atualizarEstadoOcupacao d m1 m2 s) PINO_LUZ)
   \<and> (\<not> (presencaConfirmada d m1 m2 s \<and> \<not> iluminacaoState s \<and> \<not> luzDesligadaManualmente s)
        \<longrightarrow> iluminacaoState (atualizarEstadoOcupacao d m1 m2 s) = iluminacaoState s
          \<and> pinos (atualizarEstadoOcupacao d m1 m2 s) = pinos s)
   \<and> (luzDesligadaManualmente s
        \<longrightarrow> iluminacaoState (atualizarEstadoOcupacao d m1 m2 s) = iluminacaoState s
          \<and> pinos (atualizarEstadoOcupacao d m1 m2 s) = pinos s)"
proof (cases "presencaConfirmada d m1 m2 s \<and> \<not> iluminacaoState s \<and> \<not> luzDesligadaManualmente s")
  case True
  with ocupacao_luz [of d m1 m2 s]
  have "atualizarEstadoOcupacao d m1 m2 s =
          controleLuz True
            (emitir avisoLuzAutomatica
               (s\<lparr>ocupacao := True, tempoInicioPresenca := inicioEfetivo m1 s\<rparr>))"
    by blast
  with True show ?thesis
    by (simp add: controleLuz_def redirectToRoot_def emitir_def digitalWrite_def)
next
  case False
  with ocupacao_luz [of d m1 m2 s]
  have "iluminacaoState (atualizarEstadoOcupacao d m1 m2 s) = iluminacaoState s
        \<and> pinos (atualizarEstadoOcupacao d m1 m2 s) = pinos s"
    by blast
  with False show ?thesis by auto
qed

theorem luz_automatica_witness:
  "(presencaConfirmada 15 (millis 6000) (millis 6000) sPresente
      \<and> \<not> iluminacaoState sPresente \<and> \<not> luzDesligadaManualmente sPresente)
   \<and> iluminacaoState (atualizarEstadoOcupacao 15 (millis 6000) (millis 6000) sPresente)
   \<and> pinos (atualizarEstadoOcupacao 15 (millis 6000) (millis 6000) sPresente) PINO_LUZ
   \<and> \<not> presencaConfirmada 15 (millis 5999) (millis 5999) sPresente
   \<and> \<not> iluminacaoState (atualizarEstadoOcupacao 15 (millis 5999) (millis 5999) sPresente)
   \<and> luzDesligadaManualmente sBloqueado
   \<and> presencaConfirmada 15 (millis 6000) (millis 6000) sBloqueado
   \<and> \<not> iluminacaoState (atualizarEstadoOcupacao 15 (millis 6000) (millis 6000) sBloqueado)"
  using luz_automatica [of 15 "millis 6000" "millis 6000" sPresente]
    luz_automatica [of 15 "millis 5999" "millis 5999" sPresente]
    luz_automatica [of 15 "millis 6000" "millis 6000" sBloqueado]
  by (simp add: sPresente_def sBloqueado_def estado_inicial_def presencaConfirmada_def
      presencaAtual_def inicioEfetivo_def millis_def constantes)

text \<open>
  C10. An automatic activation is a call of the manual operation \<open>controleLuz True\<close>:
  whatever the system message held, it becomes "Luz ligada com sucesso.", and the
  function sends the redirect (the \<open>Location\<close> header and the 302 response) although
  no web request is being served.
\<close>

theorem acionamento_por_controleLuz:
  "presencaConfirmada d m1 m2 s \<Longrightarrow> \<not> iluminacaoState s \<Longrightarrow> \<not> luzDesligadaManualmente s \<Longrightarrow>
     atualizarEstadoOcupacao d m1 m2 s =
       controleLuz True
         (emitir avisoLuzAutomatica
            (s\<lparr>ocupacao := True, tempoInicioPresenca := inicioEfetivo m1 s\<rparr>))
   \<and> mensagemSistema (atualizarEstadoOcupacao d m1 m2 s) = ''Luz ligada com sucesso.''
   \<and> saida (atualizarEstadoOcupacao d m1 m2 s) =
       saida s @ avisoLuzAutomatica @
         [DigitalWrite PINO_LUZ True, SendHeader ''Location'' ''/'', Send 302 ''text/plain'' []]"
proof -
  assume a: "presencaConfirmada d m1 m2 s" "\<not> iluminacaoState s" "\<not> luzDesligadaManualmente s"
  with ocupacao_luz [of d m1 m2 s]
  have eq: "atualizarEstadoOcupacao d m1 m2 s =
          controleLuz True
            (emitir avisoLuzAutomatica
               (s\<lparr>ocupacao := True, tempoInicioPresenca := inicioEfetivo m1 s\<rparr>))"
    by blast
  then show ?thesis
    by (simp add: controleLuz_def redirectToRoot_def emitir_def digitalWrite_def)
qed

theorem acionamento_por_controleLuz_witness:
  "presencaConfirmada 15 (millis 6000) (millis 6000) sPresente
   \<and> \<not> iluminacaoState sPresente \<and> \<not> luzDesligadaManualmente sPresente
   \<and> mensagemSistema sPresente = ''Ventoinha DESLIGADA automaticamente.''
   \<and> mensagemSistema (atualizarEstadoOcupacao 15 (millis 6000) (millis 6000) sPresente)
       = ''Luz ligada com sucesso.''
   \<and> saida (atualizarEstadoOcupacao 15 (millis 6000) (millis 6000) sPresente) =
       saida sPresente @ avisoLuzAutomatica @
         [DigitalWrite PINO_LUZ True, SendHeader ''Location'' ''/'', Send 302 ''text/plain'' []]"
proof -
  have h1: "presencaConfirmada 15 (millis 6000) (millis 6000) sPresente"
    by (simp add: sPresente_def estado_inicial_def presencaConfirmada_def
        presencaAtual_def inicioEfetivo_def millis_def constantes)
  have h2: "\<not> iluminacaoState sPresente" and h3: "\<not> luzDesligadaManualmente sPresente"
    and h4: "mensagemSistema sPresente = ''Ventoinha DESLIGADA automaticamente.''"
    by (simp_all add: sPresente_def estado_inicial_def)
  from acionamento_por_controleLuz [OF h1 h2 h3, THEN conjunct2] h1 h2 h3 h4
  show ?thesis by simp
qed

subsection \<open>The manual-off flag of the light\<close>

lemma executar_luz_inv:
  "(luzDesligadaManualmente s \<longrightarrow> \<not> iluminacaoState s \<and> \<not> pinos s PINO_LUZ) \<Longrightarrow>
   (luzDesligadaManualmente (executar p s)
      \<longrightarrow> \<not> iluminacaoState (executar p s) \<and> \<not> pinos (executar p s) PINO_LUZ)"
  by (cases p) (simp_all add: funcoes constantes Let_def split: option.splits prod.splits)

lemma rodar_luz_inv:
  "(luzDesligadaManualmente s \<longrightarrow> \<not> iluminacaoState s \<and> \<not> pinos s PINO_LUZ) \<Longrightarrow>
   (luzDesligadaManualmente (rodar s ps)
      \<longrightarrow> \<not> iluminacaoState (rodar s ps) \<and> \<not> pinos (rodar s ps) PINO_LUZ)"
proof (induction ps arbitrary: s)
  case Nil
  then show ?case by simp
next
  case (Cons p ps)
  from Cons.prems have "luzDesligadaManualmente (executar p s)
      \<longrightarrow> \<not> iluminacaoState (executar p s) \<and> \<not> pinos (executar p s) PINO_LUZ"
    by (rule executar_luz_inv)
  from Cons.IH [OF this] show ?case by simp
qed

lemma flag_frame_temp:
  "luzDesligadaManualmente (atualizarDisplayTempUmi a b u tp s) = luzDesligadaManualmente s"
  by (simp add: atualizarDisplayTempUmi_def emitir_def Let_def)

lemma flag_frame_vent:
  "luzDesligadaManualmente (controleAutomaticoVentoinha s) = luzDesligadaManualmente s"
  by (simp add: controleAutomaticoVentoinha_def emitir_def digitalWrite_def)

lemma flag_frame_ausencia:
  "luzDesligadaManualmente (verificarDesligamentoPorAusencia s) = luzDesligadaManualmente s"
  by (simp add: verificarDesligamentoPorAusencia_def emitir_def digitalWrite_def Let_def)

lemma ocupacao_ausente:
  "\<not> presencaAtual d \<longrightarrow> \<not> luzDesligadaManualmente (atualizarEstadoOcupacao d m1 m2 s)"
  by (simp add: atualizarEstadoOcupacao_def presencaAtual_def Let_def)

lemma loop_ausente:
  "\<not> presencaAtual (distancia e) \<Longrightarrow> \<not> luzDesligadaManualmente (loop e s)"
  by (simp add: loop_def flag_frame_temp flag_frame_vent flag_frame_ausencia ocupacao_ausente)

text \<open>
  C2. In every state a run of steps reaches from the initial state, the manual-off flag
  set means the light is off, state and pin. The flag is clear after any call of
  \<open>atualizarEstadoOcupacao\<close> whose reading is not a presence, and still clear at the
  end of that cycle of \<open>loop\<close>; it is clear, and the light on, after a manual
  switch-on in an occupied room.
\<close>

theorem flag_manual_luz:
  "(luzDesligadaManualmente (rodar estado_inicial ps)
      \<longrightarrow> \<not> iluminacaoState (rodar estado_inicial ps)
        \<and> \<not> pinos (rodar estado_inicial ps) PINO_LUZ)
   \<and> (\<not> presencaAtual d \<longrightarrow> \<not> luzDesligadaManualmente (atualizarEstadoOcupacao d m1 m2 s))
   \<and> (\<not> presencaAtual (distancia e) \<longrightarrow> \<not> luzDesligadaManualmente (loop e s))
   \<and> (ocupacao s \<longrightarrow> iluminacaoState (controleLuz True s)
        \<and> \<not> luzDesligadaManualmente (controleLuz True s))"
proof -
  have "luzDesligadaManualmente estado_inicial
      \<longrightarrow> \<not> iluminacaoState estado_inicial \<and> \<not> pinos estado_inicial PINO_LUZ"
    by (simp add: estado_inicial_def)
  from rodar_luz_inv [OF this, of ps]
  have inv: "luzDesligadaManualmente (rodar estado_inicial ps)
      \<longrightarrow> \<not> iluminacaoState (rodar estado_inicial ps)
        \<and> \<not> pinos (rodar estado_inicial ps) PINO_LUZ"
    .
  have oc: "\<not> presencaAtual d \<longrightarrow> \<not> luzDesligadaManualmente (atualizarEstadoOcupacao d m1 m2 s)"
    by (rule ocupacao_ausente)
  have man: "ocupacao s \<longrightarrow> iluminacaoState (controleLuz True s)
        \<and> \<not> luzDesligadaManualmente (controleLuz True s)"
    by (simp add: controleLuz_def redirectToRoot_def emitir_def digitalWrite_def)
  from inv oc man loop_ausente [of e s] show ?thesis by blast
qed

theorem flag_manual_luz_witness:
  "luzDesligadaManualmente (rodar estado_inicial passosManual)
   \<and> \<not> iluminacaoState (rodar estado_inicial passosManual)
   \<and> \<not> pinos (rodar estado_inicial passosManual) PINO_LUZ
   \<and> \<not> presencaAtual 0
   \<and> \<not> luzDesligadaManualmente
         (atualizarEstadoOcupacao 0 (millis 2000) (millis 2000)
            (rodar estado_inicial passosManual))
   \<and> \<not> presencaAtual (distancia entradasSalaVazia)
   \<and> \<not> luzDesligadaManualmente (loop entradasSalaVazia (rodar estado_inicial passosManual))
   \<and> ocupacao (rodar estado_inicial passosManual)
   \<and> iluminacaoState (controleLuz True (rodar estado_inicial passosManual))
   \<and> \<not> luzDesligadaManualmente (controleLuz True (rodar estado_inicial passosManual))"
proof -
  have h1: "luzDesligadaManualmente (rodar estado_inicial passosManual)"
    and h2: "ocupacao (rodar estado_inicial passosManual)"
    by (simp_all add: passosManual_def estado_inicial_def funcoes constantes millis_def)
  have h3: "\<not> presencaAtual 0" and h4: "\<not> presencaAtual (distancia entradasSalaVazia)"
    by (simp_all add: presencaAtual_def entradasSalaVazia_def)
  from flag_manual_luz [of passosManual 0 "millis 2000" "millis 2000"
      "rodar estado_inicial passosManual" entradasSalaVazia] h1 h2 h3 h4
  show ?thesis by simp
qed

subsection \<open>The door\<close>











subsection \<open>Minimum time of presence\<close>

text \<open>A difference of two clock readings taken in order, as the program computes it in
  32 bits, never exceeds the time that passed.\<close>

lemma millis_decorrido:
  assumes "a \<le> b" and "tempoMinimoPresenca \<le> millis b - millis a"
  shows "a + 5000 \<le> b"
proof -
  from assms(1) have "millis b - millis a = (of_nat (b - a) :: ulong)"
    by (simp add: millis_def of_nat_diff)
  with assms(2) have "unat (5000 :: ulong) \<le> unat (of_nat (b - a) :: ulong)"
    by (simp add: tempoMinimoPresenca_def word_le_nat_alt)
  then have "5000 \<le> (b - a) mod 2 ^ 32" by (simp add: unat_of_nat)
  also have "\<dots> \<le> b - a" by (rule mod_less_eq_dividend)
  finally show ?thesis using assms(1) by linarith
qed

lemma tempoInicio_frame:
  "temposDoPasso p = [] \<Longrightarrow>
   tempoInicioPresenca (executar p s) = tempoInicioPresenca s"
  by (cases p) (simp_all add: funcoes Let_def split: option.splits prod.splits)

lemma tempoInicio_presente:
  "presencaAtual d \<longrightarrow>
   tempoInicioPresenca (atualizarEstadoOcupacao d m1 m2 s) = inicioEfetivo m1 s"
  by (simp add: atualizarEstadoOcupacao_def presencaAtual_def inicioEfetivo_def Let_def
      controleLuz_def redirectToRoot_def emitir_def digitalWrite_def)

lemma tempoInicio_ausente:
  "\<not> presencaAtual d \<longrightarrow> tempoInicioPresenca (atualizarEstadoOcupacao d m1 m2 s) = 0"
  by (simp add: atualizarEstadoOcupacao_def presencaAtual_def Let_def)

lemma permanencia_passo:
  assumes inv: "tempoInicioPresenca s = 0 \<or> emPermanencia ps s"
  shows "tempoInicioPresenca (executar p s) = 0 \<or> emPermanencia (ps @ [p]) (executar p s)"
proof (cases "temposDoPasso p = []")
  case True
  then have pres: "presenteNoPasso p" by (cases p) simp_all
  from True have fr: "tempoInicioPresenca (executar p s) = tempoInicioPresenca s"
    by (rule tempoInicio_frame)
  from inv show ?thesis
  proof
    assume "tempoInicioPresenca s = 0"
    with fr show ?thesis by simp
  next
    assume "emPermanencia ps s"
    then obtain zs ys d0 a0 b0 where
      "ps = zs @ Ocup d0 a0 b0 # ys" "list_all presenteNoPasso (Ocup d0 a0 b0 # ys)"
      "tempoInicioPresenca s = millis a0"
      unfolding emPermanencia_def by blast
    with pres fr have
      "ps @ [p] = zs @ Ocup d0 a0 b0 # (ys @ [p])
       \<and> list_all presenteNoPasso (Ocup d0 a0 b0 # (ys @ [p]))
       \<and> tempoInicioPresenca (executar p s) = millis a0"
      by simp
    then have "emPermanencia (ps @ [p]) (executar p s)"
      unfolding emPermanencia_def by blast
    then show ?thesis ..
  qed
next
  case False
  then obtain d t1 t2 where p: "p = Ocup d t1 t2" by (cases p) simp_all
  show ?thesis
  proof (cases "presencaAtual d")
    case False
    with tempoInicio_ausente [of d "millis t1" "millis t2" s] p show ?thesis by simp
  next
    case True
    with tempoInicio_presente [of d "millis t1" "millis t2" s] p
    have ini: "tempoInicioPresenca (executar p s) = inicioEfetivo (millis t1) s" by simp
    from inv have "emPermanencia (ps @ [p]) (executar p s)"
    proof
      assume "tempoInicioPresenca s = 0"
      with ini True p have
        "ps @ [p] = ps @ Ocup d t1 t2 # []
         \<and> list_all presenteNoPasso (Ocup d t1 t2 # [])
         \<and> tempoInicioPresenca (executar p s) = millis t1"
        by (simp add: inicioEfetivo_def)
      then show ?thesis unfolding emPermanencia_def by blast
    next
      assume "emPermanencia ps s"
      then obtain zs ys d0 a0 b0 where w:
        "ps = zs @ Ocup d0 a0 b0 # ys" "list_all presenteNoPasso (Ocup d0 a0 b0 # ys)"
        "tempoInicioPresenca s = millis a0"
        unfolding emPermanencia_def by blast
      show ?thesis
      proof (cases "tempoInicioPresenca s = 0")
        case True
        with ini \<open>presencaAtual d\<close> p have
          "ps @ [p] = ps @ Ocup d t1 t2 # []
           \<and> list_all presenteNoPasso (Ocup d t1 t2 # [])
           \<and> tempoInicioPresenca (executar p s) = millis t1"
          by (simp add: inicioEfetivo_def)
        then show ?thesis unfolding emPermanencia_def by blast
      next
        case False
        with ini w \<open>presencaAtual d\<close> p have
          "ps @ [p] = zs @ Ocup d0 a0 b0 # (ys @ [p])
           \<and> list_all presenteNoPasso (Ocup d0 a0 b0 # (ys @ [p]))
           \<and> tempoInicioPresenca (executar p s) = millis a0"
          by (simp add: inicioEfetivo_def)
        then show ?thesis unfolding emPermanencia_def by blast
      qed
    qed
    then show ?thesis ..
  qed
qed

lemma permanencia_rodar:
  "tempoInicioPresenca (rodar estado_inicial ps) = 0
   \<or> emPermanencia ps (rodar estado_inicial ps)"
proof (induction ps rule: rev_induct)
  case Nil
  show ?case by (simp add: estado_inicial_def)
next
  case (snoc p ps)
  from permanencia_passo [OF snoc.IH, of p] show ?case by (simp add: rodar_append)
qed

text \<open>
  C4. Take any run of steps from the initial state followed by an occupancy sample, the
  clock readings of the occupancy samples being in chronological order. If that last
  sample confirms the presence, then the start of the presence it is measured from is
  the first clock reading of an earlier (or this) occupancy sample, every occupancy
  sample from that one on is a presence, and at least 5000 ms have passed since that
  reading. And a single sample that is not a presence sets the stored start to zero.
\<close>

theorem permanencia_minima:
  assumes crono: "sorted (temposOcup (ps @ [Ocup d t1 t2]))"
    and conf: "presencaConfirmada d (millis t1) (millis t2) (rodar estado_inicial ps)"
  shows
    "(\<exists>zs ys d0 a0 b0.
        ps @ [Ocup d t1 t2] = zs @ Ocup d0 a0 b0 # ys
        \<and> list_all presenteNoPasso (Ocup d0 a0 b0 # ys)
        \<and> inicioEfetivo (millis t1) (rodar estado_inicial ps) = millis a0
        \<and> a0 + 5000 \<le> t2)
     \<and> (\<not> presencaAtual d' \<longrightarrow>
          tempoInicioPresenca (atualizarEstadoOcupacao d' m1 m2 s) = 0)"
proof -
  let ?s = "rodar estado_inicial ps"
  from conf have pres: "presencaAtual d"
    and dec: "tempoMinimoPresenca \<le> millis t2 - inicioEfetivo (millis t1) ?s"
    by (simp_all add: presencaConfirmada_def)
  have "\<exists>zs ys d0 a0 b0.
        ps @ [Ocup d t1 t2] = zs @ Ocup d0 a0 b0 # ys
        \<and> list_all presenteNoPasso (Ocup d0 a0 b0 # ys)
        \<and> inicioEfetivo (millis t1) ?s = millis a0
        \<and> a0 + 5000 \<le> t2"
  proof (cases "tempoInicioPresenca ?s = 0")
    case True
    then have ini: "inicioEfetivo (millis t1) ?s = millis t1" by (simp add: inicioEfetivo_def)
    from crono have "t1 \<le> t2" by (simp add: temposOcup_def sorted_append)
    with dec ini have "t1 + 5000 \<le> t2" by (simp add: millis_decorrido)
    with pres ini have
      "ps @ [Ocup d t1 t2] = ps @ Ocup d t1 t2 # []
       \<and> list_all presenteNoPasso (Ocup d t1 t2 # [])
       \<and> inicioEfetivo (millis t1) ?s = millis t1 \<and> t1 + 5000 \<le> t2"
      by simp
    then show ?thesis by blast
  next
    case False
    with permanencia_rodar [of ps] have "emPermanencia ps ?s" by simp
    then obtain zs ys d0 a0 b0 where w:
      "ps = zs @ Ocup d0 a0 b0 # ys" "list_all presenteNoPasso (Ocup d0 a0 b0 # ys)"
      "tempoInicioPresenca ?s = millis a0"
      unfolding emPermanencia_def by blast
    from False w(3) have ini: "inicioEfetivo (millis t1) ?s = millis a0"
      by (simp add: inicioEfetivo_def)
    from crono w(1) have "a0 \<le> t2" by (simp add: temposOcup_def sorted_append)
    with dec ini have "a0 + 5000 \<le> t2" by (simp add: millis_decorrido)
    with w pres ini have
      "ps @ [Ocup d t1 t2] = zs @ Ocup d0 a0 b0 # (ys @ [Ocup d t1 t2])
       \<and> list_all presenteNoPasso (Ocup d0 a0 b0 # (ys @ [Ocup d t1 t2]))
       \<and> inicioEfetivo (millis t1) ?s = millis a0 \<and> a0 + 5000 \<le> t2"
      by simp
    then show ?thesis by blast
  qed
  with tempoInicio_ausente [of d' m1 m2 s] show ?thesis by (intro conjI)
qed

theorem permanencia_minima_witness:
  "sorted (temposOcup (passosPermanencia @ [Ocup 15 6000 6000]))
   \<and> presencaConfirmada 15 (millis 6000) (millis 6000) (rodar estado_inicial passosPermanencia)
   \<and> (\<exists>zs ys d0 a0 b0.
        passosPermanencia @ [Ocup 15 6000 6000] = zs @ Ocup d0 a0 b0 # ys
        \<and> list_all presenteNoPasso (Ocup d0 a0 b0 # ys)
        \<and> inicioEfetivo (millis 6000) (rodar estado_inicial passosPermanencia) = millis a0
        \<and> a0 + 5000 \<le> 6000)
   \<and> \<not> presencaAtual 0
   \<and> tempoInicioPresenca (atualizarEstadoOcupacao 0 (millis 7000) (millis 7000)
        (rodar estado_inicial passosPermanencia)) = 0"
proof -
  have h1: "sorted (temposOcup (passosPermanencia @ [Ocup 15 6000 6000]))"
    by (simp add: passosPermanencia_def temposOcup_def)
  have h2: "presencaConfirmada 15 (millis 6000) (millis 6000)
              (rodar estado_inicial passosPermanencia)"
    by (simp add: passosPermanencia_def estado_inicial_def presencaConfirmada_def
        presencaAtual_def inicioEfetivo_def funcoes constantes millis_def Let_def)
  have h3: "\<not> presencaAtual 0" by (simp add: presencaAtual_def)
  note r = permanencia_minima [OF h1 h2, of 0 "millis 7000" "millis 7000"
      "rodar estado_inicial passosPermanencia"]
  from r have e: "\<exists>zs ys d0 a0 b0.
        passosPermanencia @ [Ocup 15 6000 6000] = zs @ Ocup d0 a0 b0 # ys
        \<and> list_all presenteNoPasso (Ocup d0 a0 b0 # ys)
        \<and> inicioEfetivo (millis 6000) (rodar estado_inicial passosPermanencia) = millis a0
        \<and> a0 + 5000 \<le> 6000" by (rule conjunct1)
  from r [THEN conjunct2, THEN mp, OF h3]
  have z: "tempoInicioPresenca (atualizarEstadoOcupacao 0 (millis 7000) (millis 7000)
        (rodar estado_inicial passosPermanencia)) = 0" .
  from h1 h2 e h3 z show ?thesis by (intro conjI)
qed

end
